theory Spec2Isabelle
  imports Complex_Main "HOL-Library.Sublist"
begin

section \<open>Data model\<close>

text \<open>
  The downloader works on Python dictionaries with fixed keys; each becomes a record.
  Status strings (\<^verbatim>\<open>"completed"\<close>, \<^verbatim>\<open>"failed"\<close>, ...) are the constructors of a datatype.
  A caught exception is kept by its class and its text; \<^verbatim>\<open>str(e)\<close> reads the text.
\<close>

datatype py_exception =
    TypeError string
  | ValueError string
  | URLError string
  | OSError string
  | KeyError string

fun str_exn :: "py_exception \<Rightarrow> string" where
  "str_exn (TypeError m) = m"
| "str_exn (ValueError m) = m"
| "str_exn (URLError m) = m"
| "str_exn (OSError m) = m"
| "str_exn (KeyError m) = m"

text \<open>
  The configuration object, with the keys the engine reads. \<^verbatim>\<open>Config.validate\<close> admits
  only a non-negative integer \<^verbatim>\<open>max_retries\<close>, hence \<open>nat\<close>. Delays are only handed to
  \<^verbatim>\<open>time.sleep\<close>.
\<close>

record config =
  output_dir :: string
  parallel :: bool
  workers :: nat
  delay :: real
  chunk_size :: nat
  max_retries :: nat
  retry_delay :: real
  verify_integrity :: bool

text \<open>
  One entry of \<^verbatim>\<open>raw_files\<close>, as \<^verbatim>\<open>_check_raw_files\<close> builds it. \<open>size_bytes\<close> is what
  \<^verbatim>\<open>get_file_size\<close> returned: \<open>None\<close> when the probe failed. (\<^verbatim>\<open>size_human\<close> is display only.)
\<close>

record file_info =
  filename :: string
  url :: string
  size_bytes :: "nat option"

datatype file_status = FCompleted | FFailed

text \<open>
  A per-file result dictionary. The result synthesised by the parallel dispatcher has no
  \<^verbatim>\<open>local_path\<close> key and copies \<^verbatim>\<open>size_bytes\<close> from the file entry, which may be \<^verbatim>\<open>None\<close>.
\<close>

record file_result =
  fr_filename :: string
  fr_local_path :: "string option"
  fr_status :: file_status
  fr_error :: "string option"
  fr_size_bytes :: "nat option"

datatype dataset_status = Completed | Partial | Failed | No_raw_data

record metadata =
  md_gse_id :: string
  has_raw_data :: bool
  raw_files :: "file_info list"
  md_error :: "string option"

record dataset_result =
  dr_gse_id :: string
  dr_status :: dataset_status
  dr_error :: "string option"
  dr_files :: "file_result list"
  dr_metadata :: "metadata option"

section \<open>String helpers of the Python runtime\<close>

text \<open>
  Strings are lists of code points below 256. \<^verbatim>\<open>str.lower\<close> maps the ASCII capitals and the
  Latin-1 capitals (192 to 222 except 215) to the code point 32 above.
\<close>

definition lower_char :: "char \<Rightarrow> char" where
  "lower_char c =
     (let n = (of_char c :: nat)
      in if (65 \<le> n \<and> n \<le> 90) \<or> (192 \<le> n \<and> n \<le> 222 \<and> n \<noteq> 215)
         then char_of (n + 32) else c)"

definition lower :: "string \<Rightarrow> string" where
  "lower s = map lower_char s"

text \<open>\<^verbatim>\<open>sub in s\<close> on strings: \<open>sub\<close> occurs in \<open>s\<close> as a contiguous block.\<close>

fun str_in :: "string \<Rightarrow> string \<Rightarrow> bool" where
  "str_in sub [] = (sub = [])"
| "str_in sub (c # cs) = (prefix sub (c # cs) \<or> str_in sub cs)"

definition endswith :: "string \<Rightarrow> string \<Rightarrow> bool" where
  "endswith s suf = suffix suf s"

text \<open>\<^verbatim>\<open>s.replace("GSE", "")\<close>: every occurrence, scanning from the left.\<close>

fun remove_GSE :: "string \<Rightarrow> string" where
  "remove_GSE (a # b # c # rest) =
     (if a = CHR ''G'' \<and> b = CHR ''S'' \<and> c = CHR ''E'' then remove_GSE rest
      else a # remove_GSE (b # c # rest))"
| "remove_GSE s = s"

text \<open>\<^verbatim>\<open>s.strip('. ')\<close>: dots and spaces are dropped from both ends.\<close>

definition strip_dots_spaces :: "string \<Rightarrow> string" where
  "strip_dots_spaces s =
     (let drop_it = (\<lambda>c. c = CHR ''.'' \<or> c = CHR '' '')
      in rev (dropWhile drop_it (rev (dropWhile drop_it s))))"

text \<open>\<^verbatim>\<open>os.path.join(a, b)\<close> on POSIX, for two components.\<close>

definition path_join :: "string \<Rightarrow> string \<Rightarrow> string" where
  "path_join a b =
     (if prefix ''/'' b then b
      else if a = [] \<or> endswith a ''/'' then a @ b
      else a @ ''/'' @ b)"

section \<open>utils.py\<close>

definition unsafe_chars :: "char list" where
  "unsafe_chars = [CHR ''<'', CHR ''>'', CHR '':'', CHR 0x22, CHR ''/'', CHR 0x5C,
                   CHR ''|'', CHR ''?'', CHR ''*'']"

definition safe_filename :: "string \<Rightarrow> string" where
  "safe_filename name =
     (let safe_name = map (\<lambda>c. if c \<in> set unsafe_chars then CHR ''_'' else c) name;
          safe_name = strip_dots_spaces safe_name
      in if safe_name = [] then ''unnamed_file'' else safe_name)"

section \<open>Raw-file discovery: \<^verbatim>\<open>_check_raw_files\<close>\<close>

definition raw_keywords :: "string list" where
  "raw_keywords = [''raw'', ''.idat'', ''.cel'', ''.fastq'', ''.fq'', ''.sra'', ''.bam'',
                   ''.cram'', ''signal'', ''intensity'', ''reads'', ''sequencing'']"

text \<open>The test applied to each candidate name inside the loop.\<close>

definition is_raw :: "string \<Rightarrow> bool" where
  "is_raw name =
     (let filename_lower = lower name
      in list_ex (\<lambda>keyword. str_in keyword filename_lower) raw_keywords
         \<or> str_in ''_raw.'' filename_lower \<or> endswith filename_lower ''_raw.tar'')"

text \<open>The link texts kept as candidates: all but the two fixed names.\<close>

definition file_names :: "string list \<Rightarrow> string list" where
  "file_names link_names =
     filter (\<lambda>name. name \<notin> set [''Parent Directory'', ''filelist.txt'']) link_names"

definition suppl_url :: "string \<Rightarrow> string" where
  "suppl_url gse_id =
     (let gse_num = remove_GSE gse_id;
          first_three = (if length gse_num \<ge> 3 then take (length gse_num - 3) gse_num else ''0'')
      in ''https://ftp.ncbi.nlm.nih.gov/geo/series/GSE'' @ first_three @ ''nnn/'' @ gse_id
         @ ''/suppl/'')"

text \<open>
  \<open>listing\<close> is what fetching and parsing the directory page gave: the link texts in page
  order, or the exception raised on the way (caught inside the function). \<open>probe\<close> is
  \<^verbatim>\<open>get_file_size\<close>: it swallows every failure and answers \<open>None\<close> then.
\<close>

definition check_raw_files ::
  "(string \<Rightarrow> nat option) \<Rightarrow> string \<Rightarrow> py_exception + string list \<Rightarrow> file_info list \<times> bool" where
  "check_raw_files probe gse_id listing =
     (let found =
            (case listing of
               Inl e \<Rightarrow> []
             | Inr link_names \<Rightarrow>
                 map (\<lambda>name. \<lparr>filename = name, url = suppl_url gse_id @ name,
                                size_bytes = probe (suppl_url gse_id @ name)\<rparr>)
                     (filter is_raw (file_names link_names)))
      in (found, length found > 0))"

section \<open>The environment of a transfer\<close>

text \<open>
  The local disk is a map from paths to file sizes (contents are never inspected: the
  integrity check compares sizes). The network is a script: the responses that the coming
  \<^verbatim>\<open>urlopen\<close> calls will receive, in order; when it is exhausted a call fails to connect.
  The trace records the observable steps, oldest first: each call of the transfer
  function, each request with the start of its \<^verbatim>\<open>Range\<close> header if it has one, each opening
  of the local file with its mode, and each \<^verbatim>\<open>time.sleep\<close>. Console output is not modelled,
  and opening and writing the local file are taken to succeed.
\<close>

datatype open_mode = Write_truncate | Append

datatype event =
    Transfer_call string string "nat option"
  | Request string "nat option"
  | Opened string open_mode
  | Sleep real

text \<open>
  A header that the code converts with \<^verbatim>\<open>int(...)\<close>: missing, a number, or text on which
  the conversion raises.
\<close>

datatype header = Absent | Number int | Malformed py_exception

text \<open>What one \<^verbatim>\<open>response.read(chunk_size)\<close> gives: some bytes (none at the end), or it raises.\<close>

datatype read = Chunk nat | Read_fails py_exception

record response =
  connect_error :: "py_exception option"
  content_range :: header
  content_length :: header
  body :: "read list"

record world =
  fs :: "string \<rightharpoonup> nat"
  net :: "response list"
  trace :: "event list"

definition emit :: "event \<Rightarrow> world \<Rightarrow> world" where
  "emit ev w = w\<lparr>trace := trace w @ [ev]\<rparr>"

text \<open>Comparisons of an expected size that may be \<^verbatim>\<open>None\<close>: Python raises \<^verbatim>\<open>TypeError\<close>.\<close>

definition none_gt_msg :: string where
  "none_gt_msg = CHR 0x27 # ''>' not supported between instances of 'NoneType' and 'int'' @ [CHR 0x27]"

definition int_lt_none_msg :: string where
  "int_lt_none_msg = CHR 0x27 # ''<' not supported between instances of 'int' and 'NoneType'' @ [CHR 0x27]"

definition expected_gt_zero :: "nat option \<Rightarrow> py_exception + bool" where
  "expected_gt_zero expected_size =
     (case expected_size of
        None \<Rightarrow> Inl (TypeError none_gt_msg)
      | Some e \<Rightarrow> Inr (e > 0))"

text \<open>\<^verbatim>\<open>verify_file_integrity\<close>: the file exists and has the expected size.\<close>

definition verify_file_integrity :: "world \<Rightarrow> string \<Rightarrow> nat option \<Rightarrow> bool" where
  "verify_file_integrity w file_path expected_size =
     (case fs w file_path of
        None \<Rightarrow> False
      | Some actual_size \<Rightarrow> Some actual_size = expected_size)"

section \<open>File Transfer Unit: \<^verbatim>\<open>_download_with_progress\<close>\<close>

text \<open>The first block: \<open>resume_pos\<close> and \<open>mode\<close> from the existing file, if any.\<close>

definition resume_decision :: "nat option \<Rightarrow> nat option \<Rightarrow> py_exception + nat \<times> open_mode" where
  "resume_decision existing expected_size =
     (case existing of
        None \<Rightarrow> Inr (0, Write_truncate)
      | Some existing_size \<Rightarrow>
          (case expected_size of
             None \<Rightarrow> Inl (TypeError int_lt_none_msg)
           | Some e \<Rightarrow>
               if existing_size < e then Inr (existing_size, Append)
               else Inr (0, Write_truncate)))"

text \<open>\<open>total_size\<close>: used for the progress line only, but computing it can raise.\<close>

definition int_none_msg :: string where
  "int_none_msg =
     ''int() argument must be a string, a bytes-like object or a real number, not 'NoneType''
     @ [CHR 0x27]"

definition total_size :: "nat \<Rightarrow> response \<Rightarrow> nat option \<Rightarrow> py_exception + int option" where
  "total_size resume_pos resp expected_size =
     (if resume_pos > 0 then
        (case content_range resp of
           Absent \<Rightarrow> Inr (map_option int expected_size)
         | Number n \<Rightarrow> Inr (Some n)
         | Malformed e \<Rightarrow> Inl e)
      else
        (case content_length resp of
           Absent \<Rightarrow>
             (case expected_size of
                Some e \<Rightarrow> Inr (Some (int e))
              | None \<Rightarrow> Inl (TypeError int_none_msg))
         | Number n \<Rightarrow> Inr (Some n)
         | Malformed e \<Rightarrow> Inl e))"

text \<open>
  The chunk loop: every non-empty chunk is written and counted; an empty chunk, or the
  end of the stream, ends the loop; a failing read leaves what was written so far.
  The second argument is the size of the local file.
\<close>

fun read_loop :: "read list \<Rightarrow> nat \<Rightarrow> py_exception option \<times> nat" where
  "read_loop [] sz = (None, sz)"
| "read_loop (Chunk n # rest) sz = (if n = 0 then (None, sz) else read_loop rest (sz + n))"
| "read_loop (Read_fails e # rest) sz = (Some e, sz)"

definition download_with_progress ::
  "config \<Rightarrow> string \<Rightarrow> string \<Rightarrow> nat option \<Rightarrow> world \<Rightarrow> (py_exception + unit) \<times> world" where
  "download_with_progress cfg u local_path expected_size w0 =
     (let w = emit (Transfer_call u local_path expected_size) w0
      in case resume_decision (fs w local_path) expected_size of
           Inl e \<Rightarrow> (Inl e, w)
         | Inr (resume_pos, mode) \<Rightarrow>
             (let w1 = emit (Request u (if resume_pos > 0 then Some resume_pos else None)) w
              in case net w1 of
                   [] \<Rightarrow> (Inl (URLError ''connection failed''), w1)
                 | resp # later \<Rightarrow>
                     (let w2 = w1\<lparr>net := later\<rparr>
                      in case connect_error resp of
                           Some e \<Rightarrow> (Inl e, w2)
                         | None \<Rightarrow>
                             (case total_size resume_pos resp expected_size of
                                Inl e \<Rightarrow> (Inl e, w2)
                              | Inr total_sz \<Rightarrow>
                                  (let start = (case mode of
                                                  Write_truncate \<Rightarrow> 0
                                                | Append \<Rightarrow> (case fs w2 local_path of
                                                               None \<Rightarrow> 0 | Some n \<Rightarrow> n));
                                       w3 = emit (Opened local_path mode) w2;
                                       (failure, final) = read_loop (body resp) start;
                                       w4 = w3\<lparr>fs := (fs w3)(local_path \<mapsto> final)\<rparr>
                                   in (case failure of None \<Rightarrow> Inr () | Some e \<Rightarrow> Inl e, w4))))))"

section \<open>Retry Wrapper: \<^verbatim>\<open>_download_single_file\<close>\<close>

text \<open>The body of the \<^verbatim>\<open>try\<close> block of one loop iteration.\<close>

definition attempt_body ::
  "config \<Rightarrow> file_info \<Rightarrow> string \<Rightarrow> world \<Rightarrow> (py_exception + file_result) \<times> world" where
  "attempt_body cfg fi local_path w =
     (case download_with_progress cfg (url fi) local_path (size_bytes fi) w of
        (Inl e, w1) \<Rightarrow> (Inl e, w1)
      | (Inr finished, w1) \<Rightarrow>
          (case expected_gt_zero (size_bytes fi) of
             Inl e \<Rightarrow> (Inl e, w1)
           | Inr known \<Rightarrow>
               if known \<and> verify_integrity cfg
                  \<and> \<not> verify_file_integrity w1 local_path (size_bytes fi)
               then (Inl (ValueError ''Downloaded file size doesn't match expected size''), w1)
               else (case fs w1 local_path of
                       None \<Rightarrow> (Inl (OSError ''No such file or directory''), w1)
                     | Some on_disk \<Rightarrow>
                         (Inr \<lparr>fr_filename = filename fi, fr_local_path = Some local_path,
                               fr_status = FCompleted, fr_error = None,
                               fr_size_bytes = Some on_disk\<rparr>, w1))))"

text \<open>\<^verbatim>\<open>for attempt in range(max_retries + 1)\<close>, entered with \<open>attempt = 0\<close>.\<close>

function retry_loop ::
  "config \<Rightarrow> file_info \<Rightarrow> string \<Rightarrow> nat \<Rightarrow> world \<Rightarrow> file_result \<times> world" where
  "retry_loop cfg fi local_path attempt w =
     (case attempt_body cfg fi local_path w of
        (Inr result, w1) \<Rightarrow> (result, w1)
      | (Inl e, w1) \<Rightarrow>
          if attempt < max_retries cfg
          then retry_loop cfg fi local_path (Suc attempt) (emit (Sleep (retry_delay cfg)) w1)
          else (\<lparr>fr_filename = filename fi, fr_local_path = Some local_path,
                 fr_status = FFailed, fr_error = Some (str_exn e),
                 fr_size_bytes = Some 0\<rparr>, w1))"
  by pat_completeness auto
termination
  by (relation "measure (\<lambda>(cfg, fi, local_path, attempt, w). max_retries cfg - attempt)") auto

declare retry_loop.simps [simp del]

definition local_path_of :: "config \<Rightarrow> file_info \<Rightarrow> string" where
  "local_path_of cfg fi = path_join (output_dir cfg) (safe_filename (filename fi))"

definition download_single_file ::
  "config \<Rightarrow> file_info \<Rightarrow> world \<Rightarrow> (py_exception + file_result) \<times> world" where
  "download_single_file cfg fi w =
     (let expected_size = size_bytes fi;
          local_path = local_path_of cfg fi
      in case (if fs w local_path \<noteq> None then expected_gt_zero expected_size else Inr False) of
           Inl e \<Rightarrow> (Inl e, w)
         | Inr present_and_known \<Rightarrow>
             if present_and_known \<and> verify_file_integrity w local_path expected_size
             then (Inr \<lparr>fr_filename = filename fi, fr_local_path = Some local_path,
                        fr_status = FCompleted, fr_error = None,
                        fr_size_bytes = expected_size\<rparr>, w)
             else (case retry_loop cfg fi local_path 0 w of
                     (result, w1) \<Rightarrow> (Inr result, w1)))"

section \<open>Parallel Dispatcher\<close>

text \<open>\<^verbatim>\<open>_download_files_sequential\<close>: one file after the other, on the same disk and network.
  An exception that escapes the Retry Wrapper escapes the dispatcher too.\<close>

fun download_files_sequential ::
  "config \<Rightarrow> file_info list \<Rightarrow> world \<Rightarrow> (py_exception + file_result list) \<times> world" where
  "download_files_sequential cfg [] w = (Inr [], w)"
| "download_files_sequential cfg (fi # later) w =
     (case download_single_file cfg fi w of
        (Inl e, w1) \<Rightarrow> (Inl e, w1)
      | (Inr result, w1) \<Rightarrow>
          (let w2 = (if later \<noteq> [] \<and> delay cfg > 0 then emit (Sleep (delay cfg)) w1 else w1)
           in case download_files_sequential cfg later w2 of
                (Inl e, w3) \<Rightarrow> (Inl e, w3)
              | (Inr results, w3) \<Rightarrow> (Inr (result # results), w3)))"

text \<open>
  \<^verbatim>\<open>_download_files_parallel\<close>. The worker pool is not modelled: \<open>outcome i\<close> is what the
  task submitted for the \<open>i\<close>-th file did (it returned a result or raised), and
  \<open>completion\<close> lists the indices of the tasks in the order \<^verbatim>\<open>as_completed\<close> yields them,
  which is every submitted task once.
\<close>

definition collect_future :: "file_info \<Rightarrow> py_exception + file_result \<Rightarrow> file_result" where
  "collect_future fi fut =
     (case fut of
        Inr result \<Rightarrow> result
      | Inl e \<Rightarrow> \<lparr>fr_filename = filename fi, fr_local_path = None, fr_status = FFailed,
                   fr_error = Some (str_exn e), fr_size_bytes = size_bytes fi\<rparr>)"

definition download_files_parallel ::
  "file_info list \<Rightarrow> (nat \<Rightarrow> py_exception + file_result) \<Rightarrow> nat list \<Rightarrow> file_result list" where
  "download_files_parallel files outcome completion =
     map (\<lambda>i. collect_future (files ! i) (outcome i)) completion"

text \<open>The completion order names every submitted task exactly once.\<close>

definition each_task_once :: "nat \<Rightarrow> nat list \<Rightarrow> bool" where
  "each_task_once n completion = (sort completion = [0..<n])"

section \<open>One dataset: \<^verbatim>\<open>get_gse_metadata\<close> and \<^verbatim>\<open>download_gse_dataset\<close>\<close>

text \<open>
  What the outside gives during one dataset attempt: the size probe, the outcome of the
  resolution, and, for parallel mode, the task outcomes and their completion order. The
  outcome of the resolution is either an exception that reached the handler of
  \<^verbatim>\<open>get_gse_metadata\<close> (before \<^verbatim>\<open>raw_files\<close> is assigned), or else the outcome of the
  directory listing, which \<^verbatim>\<open>_check_raw_files\<close> handles itself. The three helpers called in
  the \<^verbatim>\<open>try\<close> block of \<^verbatim>\<open>get_gse_metadata\<close> each catch every exception, so a failing
  request never takes the first form: a failed directory listing is \<open>Inr (Inl e)\<close>. The
  descriptive fields of the metadata (title, organism, ...) play no part in the download
  and are left out.
\<close>

record dataset_env =
  probe :: "string \<Rightarrow> nat option"
  resolution :: "py_exception + (py_exception + string list)"
  task_outcome :: "nat \<Rightarrow> py_exception + file_result"
  completion_order :: "nat list"

definition get_gse_metadata :: "dataset_env \<Rightarrow> string \<Rightarrow> metadata" where
  "get_gse_metadata env gse_id =
     (case resolution env of
        Inl e \<Rightarrow> \<lparr>md_gse_id = gse_id, has_raw_data = False, raw_files = [],
                   md_error = Some (str_exn e)\<rparr>
      | Inr listing \<Rightarrow>
          (case check_raw_files (probe env) gse_id listing of
             (found, has_raw) \<Rightarrow> \<lparr>md_gse_id = gse_id, has_raw_data = has_raw,
                                    raw_files = found, md_error = None\<rparr>))"

text \<open>Python truth value of \<^verbatim>\<open>metadata["error"]\<close>: \<^verbatim>\<open>None\<close> and the empty string are false.\<close>

definition truthy :: "string option \<Rightarrow> bool" where
  "truthy v = (case v of None \<Rightarrow> False | Some s \<Rightarrow> s \<noteq> [])"

definition overall_status :: "file_result list \<Rightarrow> dataset_status" where
  "overall_status download_results =
     (let successful = length (filter (\<lambda>result. fr_status result = FCompleted) download_results);
          total_count = length download_results
      in if successful = total_count then Completed
         else if successful > 0 then Partial
         else Failed)"

text \<open>The result of the dataset attempt; the disk and network after it are not returned.\<close>

definition download_gse_dataset ::
  "config \<Rightarrow> dataset_env \<Rightarrow> string \<Rightarrow> world \<Rightarrow> py_exception + dataset_result" where
  "download_gse_dataset cfg env gse_id w =
     (let md = get_gse_metadata env gse_id
      in if truthy (md_error md) then
           Inr \<lparr>dr_gse_id = gse_id, dr_status = Failed, dr_error = md_error md,
                dr_files = [], dr_metadata = None\<rparr>
         else if \<not> has_raw_data md then
           Inr \<lparr>dr_gse_id = gse_id, dr_status = No_raw_data,
                dr_error = Some ''No raw data files found'', dr_files = [], dr_metadata = None\<rparr>
         else
           (case (if parallel cfg \<and> length (raw_files md) > 1
                  then Inr (download_files_parallel (raw_files md) (task_outcome env)
                              (completion_order env))
                  else fst (download_files_sequential cfg (raw_files md) w)) of
              Inl e \<Rightarrow> Inl e
            | Inr download_results \<Rightarrow>
                Inr \<lparr>dr_gse_id = gse_id, dr_status = overall_status download_results,
                     dr_error = None, dr_files = download_results, dr_metadata = Some md\<rparr>))"

section \<open>Run Orchestrator: status file and \<^verbatim>\<open>download_multiple_datasets\<close>\<close>

text \<open>
  What \<^verbatim>\<open>self.download_status\<close> holds. It starts as an empty dict, and
  \<^verbatim>\<open>load_download_status\<close> assigns to it whatever \<^verbatim>\<open>json.load\<close> returns. A JSON object gives
  a dict. A JSON array or string is kept as well (\<^verbatim>\<open>len\<close> accepts it), but it is not a dict:
  storing an entry under an identifier raises \<^verbatim>\<open>TypeError\<close>. The content of an array or
  string is never read and is left out.
\<close>

datatype run_status = Object "string \<rightharpoonup> dataset_result" | Array | Text

text \<open>\<^verbatim>\<open>self.download_status[gse_id] = result\<close>\<close>

definition set_item :: "run_status \<Rightarrow> string \<Rightarrow> dataset_result \<Rightarrow> py_exception + run_status" where
  "set_item status gse_id result =
     (case status of
        Object m \<Rightarrow> Inr (Object (m(gse_id \<mapsto> result)))
      | Array \<Rightarrow> Inl (TypeError ''list indices must be integers or slices, not str'')
      | Text \<Rightarrow> Inl (TypeError (CHR 0x27 # ''str' object does not support item assignment'')))"

text \<open>
  The status file is missing; or the \<^verbatim>\<open>try\<close> block of \<^verbatim>\<open>load_download_status\<close> raises (the
  file cannot be opened, it is not JSON, or it holds a JSON number, boolean or null, on
  which \<^verbatim>\<open>len\<close> raises); or it holds a JSON object, array or string. Each coming write
  either succeeds, or fails when the file is opened (the file stays as it was), or fails
  while the document is written (the file is left incomplete). When the script of write
  outcomes is exhausted, writes succeed.
\<close>

datatype status_file = Missing | Unreadable py_exception | Stored run_status

datatype write_outcome = Write_ok | Open_fails py_exception | Dump_fails py_exception

datatype run_event = Save_called run_status | Warning string

record downloader =
  download_status :: run_status
  status_on_disk :: status_file
  write_outcomes :: "write_outcome list"
  run_trace :: "run_event list"

text \<open>\<^verbatim>\<open>GEODownloader.__init__\<close>: the status starts empty.\<close>

definition new_downloader :: "status_file \<Rightarrow> write_outcome list \<Rightarrow> downloader" where
  "new_downloader on_disk script =
     \<lparr>download_status = Object Map.empty, status_on_disk = on_disk, write_outcomes = script,
      run_trace = []\<rparr>"

definition save_download_status :: "downloader \<Rightarrow> downloader" where
  "save_download_status d =
     (let d1 = d\<lparr>run_trace := run_trace d @ [Save_called (download_status d)]\<rparr>;
          (now, later) = (case write_outcomes d1 of [] \<Rightarrow> (Write_ok, []) | x # xs \<Rightarrow> (x, xs));
          d2 = d1\<lparr>write_outcomes := later\<rparr>
      in case now of
           Write_ok \<Rightarrow> d2\<lparr>status_on_disk := Stored (download_status d2)\<rparr>
         | Open_fails e \<Rightarrow>
             d2\<lparr>run_trace := run_trace d2
                   @ [Warning (''Failed to save download status: '' @ str_exn e)]\<rparr>
         | Dump_fails e \<Rightarrow>
             d2\<lparr>status_on_disk := Unreadable (ValueError ''incomplete document''),
                run_trace := run_trace d2
                   @ [Warning (''Failed to save download status: '' @ str_exn e)]\<rparr>)"

definition load_download_status :: "downloader \<Rightarrow> downloader" where
  "load_download_status d =
     (case status_on_disk d of
        Missing \<Rightarrow> d
      | Stored loaded \<Rightarrow> d\<lparr>download_status := loaded\<rparr>
      | Unreadable e \<Rightarrow>
          d\<lparr>download_status := Object Map.empty,
            run_trace := run_trace d
               @ [Warning (''Failed to load download status: '' @ str_exn e)]\<rparr>)"

text \<open>
  The loop over the identifiers. \<open>dl i gse_id\<close> stands for the call
  \<^verbatim>\<open>self.download_gse_dataset(gse_id)\<close> made for the \<open>i\<close>-th identifier (counted from 1):
  it returns a result or raises. An exception, of the call or of the status update that
  follows it, ends the run.
\<close>

fun dataset_loop ::
  "(nat \<Rightarrow> string \<Rightarrow> py_exception + dataset_result) \<Rightarrow> nat \<Rightarrow> string list
     \<Rightarrow> dataset_result list \<Rightarrow> downloader \<Rightarrow> (py_exception + dataset_result list) \<times> downloader" where
  "dataset_loop dl i [] results d = (Inr results, d)"
| "dataset_loop dl i (gse_id # later) results d =
     (case dl i gse_id of
        Inl e \<Rightarrow> (Inl e, d)
      | Inr result \<Rightarrow>
          (case set_item (download_status d) gse_id result of
             Inl e \<Rightarrow> (Inl e, d)
           | Inr updated \<Rightarrow>
               (let d1 = d\<lparr>download_status := updated\<rparr>;
                    d2 = (if i mod 5 = 0 then save_download_status d1 else d1)
                in dataset_loop dl (Suc i) later (results @ [result]) d2)))"

text \<open>The returned summary (the elapsed time, a clock reading, is left out).\<close>

record run_summary =
  rs_total :: nat
  rs_completed :: nat
  rs_partial :: nat
  rs_failed :: nat
  rs_results :: "dataset_result list"

datatype run_return = No_ids_error | Summary run_summary

definition count_status :: "dataset_status list \<Rightarrow> dataset_result list \<Rightarrow> nat" where
  "count_status wanted results = length (filter (\<lambda>r. dr_status r \<in> set wanted) results)"

definition download_multiple_datasets ::
  "(nat \<Rightarrow> string \<Rightarrow> py_exception + dataset_result) \<Rightarrow> string list \<Rightarrow> downloader
     \<Rightarrow> (py_exception + run_return) \<times> downloader" where
  "download_multiple_datasets dl gse_ids d =
     (if gse_ids = [] then (Inr No_ids_error, d)
      else
        (case dataset_loop dl 1 gse_ids [] (load_download_status d) of
           (Inl e, d1) \<Rightarrow> (Inl e, d1)
         | (Inr results, d1) \<Rightarrow>
             (Inr (Summary \<lparr>rs_total = length results,
                             rs_completed = count_status [Completed] results,
                             rs_partial = count_status [Partial] results,
                             rs_failed = count_status [Failed, No_raw_data] results,
                             rs_results = results\<rparr>),
              save_download_status d1)))"

section \<open>Process exit: the end of \<^verbatim>\<open>main\<close> in cli.py\<close>

text \<open>
  \<^verbatim>\<open>main\<close> reads \<^verbatim>\<open>results["failed"]\<close> and \<^verbatim>\<open>results["completed"]\<close>. An exception of the run,
  and the \<^verbatim>\<open>KeyError\<close> on the dictionary returned for an empty identifier list, reach the
  generic handler, which exits with 1.
\<close>

definition main_exit_code :: "py_exception + run_return \<Rightarrow> int" where
  "main_exit_code outcome =
     (case outcome of
        Inl e \<Rightarrow> 1
      | Inr No_ids_error \<Rightarrow> 1
      | Inr (Summary results) \<Rightarrow>
          if rs_failed results = 0 then 0
          else if rs_completed results > 0 then 1
          else 1)"

section \<open>Inputs used to exercise the theorems\<close>

definition two_failures :: "nat \<Rightarrow> string \<Rightarrow> py_exception + dataset_result" where
  "two_failures i gse_id =
     Inr \<lparr>dr_gse_id = gse_id, dr_status = (if i = 1 then Failed else No_raw_data),
          dr_error = Some ''No raw data files found'', dr_files = [], dr_metadata = None\<rparr>"

definition one_partial :: "nat \<Rightarrow> string \<Rightarrow> py_exception + dataset_result" where
  "one_partial i gse_id =
     Inr \<lparr>dr_gse_id = gse_id, dr_status = Partial, dr_error = None,
          dr_files = [\<lparr>fr_filename = ''a_raw.tar'', fr_local_path = Some ''downloads/a_raw.tar'',
                       fr_status = FCompleted, fr_error = None, fr_size_bytes = Some 10\<rparr>,
                      \<lparr>fr_filename = ''b.idat'', fr_local_path = Some ''downloads/b.idat'',
                       fr_status = FFailed, fr_error = Some ''connection failed'',
                       fr_size_bytes = Some 0\<rparr>],
          dr_metadata = None\<rparr>"

definition default_config :: config where
  "default_config =
     \<lparr>output_dir = ''downloads'', parallel = False, workers = 3, delay = 0.4,
      chunk_size = 32768, max_retries = 3, retry_delay = 2, verify_integrity = True\<rparr>"

definition empty_world :: world where
  "empty_world = \<lparr>fs = Map.empty, net = [], trace = []\<rparr>"


definition no_raw_env :: dataset_env where
  "no_raw_env =
     \<lparr>probe = (\<lambda>u. None),
      resolution = Inr (Inr [''Parent Directory'', ''filelist.txt'', ''notes.txt'']),
      task_outcome = (\<lambda>i. Inl (OSError ''not submitted'')), completion_order = []\<rparr>"

definition two_file_env :: dataset_env where
  "two_file_env =
     \<lparr>probe = (\<lambda>u. Some 10),
      resolution = Inr (Inr [''Parent Directory'', ''GSE1_RAW.tar'', ''GSE1_signal.txt'']),
      task_outcome = (\<lambda>i. if i = 0
         then Inr \<lparr>fr_filename = ''GSE1_RAW.tar'', fr_local_path = Some ''downloads/GSE1_RAW.tar'',
                   fr_status = FCompleted, fr_error = None, fr_size_bytes = Some 10\<rparr>
         else Inl (OSError ''disk full'')),
      completion_order = [1, 0]\<rparr>"

definition partial_result :: dataset_result where
  "partial_result =
     \<lparr>dr_gse_id = ''GSE1'', dr_status = Partial, dr_error = None,
      dr_files =
        [\<lparr>fr_filename = ''GSE1_signal.txt'', fr_local_path = None, fr_status = FFailed,
          fr_error = Some ''disk full'', fr_size_bytes = Some 10\<rparr>,
         \<lparr>fr_filename = ''GSE1_RAW.tar'', fr_local_path = Some ''downloads/GSE1_RAW.tar'',
          fr_status = FCompleted, fr_error = None, fr_size_bytes = Some 10\<rparr>],
      dr_metadata =
        Some \<lparr>md_gse_id = ''GSE1'', has_raw_data = True,
              raw_files =
                [\<lparr>filename = ''GSE1_RAW.tar'',
                  url = ''https://ftp.ncbi.nlm.nih.gov/geo/series/GSE0nnn/GSE1/suppl/GSE1_RAW.tar'',
                  size_bytes = Some 10\<rparr>,
                 \<lparr>filename = ''GSE1_signal.txt'',
                  url = ''https://ftp.ncbi.nlm.nih.gov/geo/series/GSE0nnn/GSE1/suppl/GSE1_signal.txt'',
                  size_bytes = Some 10\<rparr>],
              md_error = None\<rparr>\<rparr>"




definition unknown_size_file :: file_info where
  "unknown_size_file =
     \<lparr>filename = ''GSE1.idat'', url = ''https://host/GSE1.idat'', size_bytes = None\<rparr>"

definition sized_file :: "nat \<Rightarrow> file_info" where
  "sized_file n =
     \<lparr>filename = ''GSE1_RAW.tar'', url = ''https://host/GSE1_RAW.tar'', size_bytes = Some n\<rparr>"

definition full_body :: "nat \<Rightarrow> response" where
  "full_body n =
     \<lparr>connect_error = None, content_range = Absent, content_length = Number (int n),
      body = [Chunk n, Chunk 0]\<rparr>"

definition disk_and_net :: "(string \<times> nat) list \<Rightarrow> response list \<Rightarrow> world" where
  "disk_and_net files responses = \<lparr>fs = map_of files, net = responses, trace = []\<rparr>"

subsection \<open>Reading a trace\<close>

text \<open>The events that a step added to the trace, and the ones that count attempts and waits.\<close>

definition new_events :: "world \<Rightarrow> world \<Rightarrow> event list" where
  "new_events w w' = drop (length (trace w)) (trace w')"

fun is_attempt_or_sleep :: "event \<Rightarrow> bool" where
  "is_attempt_or_sleep (Transfer_call u p e) = True"
| "is_attempt_or_sleep (Sleep d) = True"
| "is_attempt_or_sleep (Request u r) = False"
| "is_attempt_or_sleep (Opened p m) = False"


subsection \<open>The run status expected after each dataset\<close>

text \<open>
  What the claim about the Orchestrator expects, stated without the loop, for a run that
  starts with a dict: the status file is missing, unreadable, or holds a JSON object. The
  status read at the start is the stored mapping, or empty when the file is missing or
  unreadable. After the first \<open>k\<close> datasets the status is the one read at the start,
  overridden for each of the first \<open>k\<close> identifiers by the result of its attempt (the latest
  one, when an identifier occurs twice); \<open>f i g\<close> is the result of the \<open>i\<close>-th attempt, made
  for \<open>g\<close>. The saves are those after the 5th, 10th, ... dataset and one more at the end.
\<close>

fun starts_as_dict :: "status_file \<Rightarrow> bool" where
  "starts_as_dict Missing = True"
| "starts_as_dict (Unreadable e) = True"
| "starts_as_dict (Stored (Object m)) = True"
| "starts_as_dict (Stored Array) = False"
| "starts_as_dict (Stored Text) = False"

fun loaded_status :: "status_file \<Rightarrow> (string \<rightharpoonup> dataset_result)" where
  "loaded_status (Stored (Object m)) = m"
| "loaded_status (Stored Array) = Map.empty"
| "loaded_status (Stored Text) = Map.empty"
| "loaded_status Missing = Map.empty"
| "loaded_status (Unreadable e) = Map.empty"

definition status_after ::
  "(nat \<Rightarrow> string \<Rightarrow> dataset_result) \<Rightarrow> (string \<rightharpoonup> dataset_result) \<Rightarrow> string list \<Rightarrow> nat
     \<Rightarrow> (string \<rightharpoonup> dataset_result)" where
  "status_after f loaded gse_ids k =
     loaded ++ map_of (rev (map (\<lambda>j. (gse_ids ! j, f (Suc j) (gse_ids ! j))) [0..<k]))"

definition expected_saves ::
  "(nat \<Rightarrow> string \<Rightarrow> dataset_result) \<Rightarrow> (string \<rightharpoonup> dataset_result) \<Rightarrow> string list
     \<Rightarrow> run_event list" where
  "expected_saves f loaded gse_ids =
     map (\<lambda>k. Save_called (Object (status_after f loaded gse_ids k)))
         (filter (\<lambda>k. k mod 5 = 0) [1..<Suc (length gse_ids)])
     @ [Save_called (Object (status_after f loaded gse_ids (length gse_ids)))]"

fun is_save :: "run_event \<Rightarrow> bool" where
  "is_save (Save_called m) = True"
| "is_save (Warning s) = False"

definition attempt_result :: "nat \<Rightarrow> string \<Rightarrow> dataset_result" where
  "attempt_result i gse_id =
     \<lparr>dr_gse_id = gse_id, dr_status = (if i = 2 then No_raw_data else Failed),
      dr_error = Some ''No raw data files found'', dr_files = [], dr_metadata = None\<rparr>"

definition six_ids :: "string list" where
  "six_ids = [''GSE1'', ''GSE2'', ''GSE3'', ''GSE4'', ''GSE5'', ''GSE6'']"

section \<open>Verified properties\<close>

subsection \<open>Run summary and process exit\<close>

lemma count_partition:
  "count_status [Completed] rs + count_status [Partial] rs
     + count_status [Failed, No_raw_data] rs = length rs"
  unfolding count_status_def
proof (induction rs)
  case Nil
  show ?case by simp
next
  case (Cons r rs)
  then show ?case by (cases "dr_status r") simp_all
qed

text \<open>
  Claim C10. In the summary returned by \<open>download_multiple_datasets\<close>, the \<open>failed\<close> count is
  the number of datasets whose status is \<open>failed\<close> or \<open>no_raw_data\<close>, and the three counts
  add up to the total.
\<close>

theorem summary_failed_counts_no_raw_data:
  assumes "fst (download_multiple_datasets dl gse_ids d) = Inr (Summary s)"
  shows "rs_failed s
           = length (filter (\<lambda>r. dr_status r = Failed \<or> dr_status r = No_raw_data) (rs_results s))
         \<and> rs_completed s + rs_partial s + rs_failed s = rs_total s"
proof -
  from assms obtain results where s:
    "s = \<lparr>rs_total = length results,
          rs_completed = count_status [Completed] results,
          rs_partial = count_status [Partial] results,
          rs_failed = count_status [Failed, No_raw_data] results,
          rs_results = results\<rparr>"
    by (auto simp: download_multiple_datasets_def split: if_splits prod.splits sum.splits)
  have "rs_failed s
          = length (filter (\<lambda>r. dr_status r = Failed \<or> dr_status r = No_raw_data) (rs_results s))"
    by (simp add: s count_status_def)
  moreover have "rs_completed s + rs_partial s + rs_failed s = rs_total s"
    by (simp add: s count_partition)
  ultimately show ?thesis by simp
qed

theorem summary_failed_counts_no_raw_data_witness:
  "\<exists>s. fst (download_multiple_datasets two_failures [''GSE1'', ''GSE2''] (new_downloader Missing []))
          = Inr (Summary s)
       \<and> map dr_status (rs_results s) = [Failed, No_raw_data]
       \<and> rs_failed s = 2
       \<and> rs_completed s + rs_partial s + rs_failed s = rs_total s"
proof -
  define s where
    "s = \<lparr>rs_total = 2, rs_completed = 0, rs_partial = 0, rs_failed = 2,
          rs_results = [\<lparr>dr_gse_id = ''GSE1'', dr_status = Failed,
                          dr_error = Some ''No raw data files found'', dr_files = [],
                          dr_metadata = None\<rparr>,
                        \<lparr>dr_gse_id = ''GSE2'', dr_status = No_raw_data,
                          dr_error = Some ''No raw data files found'', dr_files = [],
                          dr_metadata = None\<rparr>]\<rparr>"
  have run: "fst (download_multiple_datasets two_failures [''GSE1'', ''GSE2'']
                    (new_downloader Missing [])) = Inr (Summary s)"
    by (simp add: s_def download_multiple_datasets_def two_failures_def load_download_status_def
          new_downloader_def save_download_status_def count_status_def set_item_def)
  from summary_failed_counts_no_raw_data [OF run] run show ?thesis
    by (intro exI [of _ s]) (simp add: s_def)
qed

text \<open>
  Claim C9. The exit status is decided by the \<open>failed\<close> count alone: a run whose only
  dataset ended \<open>partial\<close> has \<open>failed = 0\<close>, and the process exits with 0.
\<close>

theorem partial_run_exits_zero:
  "rs_partial (case fst (download_multiple_datasets one_partial [''GSE1''] (new_downloader Missing []))
                of Inr (Summary s) \<Rightarrow> s) = 1
   \<and> main_exit_code (fst (download_multiple_datasets one_partial [''GSE1'']
                             (new_downloader Missing []))) = 0"
  by (simp add: download_multiple_datasets_def one_partial_def load_download_status_def
        new_downloader_def save_download_status_def count_status_def main_exit_code_def
        set_item_def)

subsection \<open>Raw-file classification\<close>

lemma str_in_sublist: "str_in sub s = sublist sub s"
  by (induction s) (simp_all add: sublist_Cons_right)

lemma str_in_iff: "str_in sub s \<longleftrightarrow> (\<exists>ps ss. s = ps @ sub @ ss)"
  by (simp add: str_in_sublist sublist_def)

lemma raw_pattern_has_raw:
  assumes "str_in ''_raw.'' s"
  shows "str_in ''raw'' s"
proof -
  from assms obtain ps ss where "s = ps @ ''_raw.'' @ ss"
    by (auto simp: str_in_iff)
  then have "s = (ps @ ''_'') @ ''raw'' @ (''.'' @ ss)" by simp
  then show ?thesis unfolding str_in_iff by blast
qed

lemma raw_tar_has_raw:
  assumes "endswith s ''_raw.tar''"
  shows "str_in ''raw'' s"
proof -
  from assms obtain ps where "s = ps @ ''_raw.tar''"
    by (auto simp: endswith_def suffix_def)
  then have "s = (ps @ ''_'') @ ''raw'' @ ''.tar''" by simp
  then show ?thesis unfolding str_in_iff by blast
qed

lemma is_raw_keywords:
  "is_raw name =
     (str_in ''raw'' (lower name) \<or> str_in ''.idat'' (lower name) \<or> str_in ''.cel'' (lower name)
      \<or> str_in ''.fastq'' (lower name) \<or> str_in ''.fq'' (lower name)
      \<or> str_in ''.sra'' (lower name) \<or> str_in ''.bam'' (lower name)
      \<or> str_in ''.cram'' (lower name) \<or> str_in ''signal'' (lower name)
      \<or> str_in ''intensity'' (lower name) \<or> str_in ''reads'' (lower name)
      \<or> str_in ''sequencing'' (lower name))"
  using raw_pattern_has_raw [of "lower name"] raw_tar_has_raw [of "lower name"]
  by (auto simp: is_raw_def raw_keywords_def Let_def)

text \<open>
  Claim C5, as stated, fails: the extension keywords carry their dot in the code, so a
  name that contains \<open>cel\<close> but not \<open>.cel\<close> (and no other keyword) is not classified as raw.
\<close>

theorem bare_keyword_not_raw_counterexample:
  "str_in ''cel'' (lower ''Excel_table.txt'') \<and> \<not> is_raw ''Excel_table.txt''"
  by code_simp

text \<open>
  Claim C5, amended. Classification looks only at the lower-cased name: it is true exactly
  when that contains one of \<open>raw\<close>, \<open>.idat\<close>, \<open>.cel\<close>, \<open>.fastq\<close>, \<open>.fq\<close>, \<open>.sra\<close>, \<open>.bam\<close>,
  \<open>.cram\<close>, \<open>signal\<close>, \<open>intensity\<close>, \<open>reads\<close>, \<open>sequencing\<close> (the patterns \<open>_raw.\<close> and
  \<open>_raw.tar\<close> add nothing, since they contain \<open>raw\<close>); two names that agree up to case are
  classified alike; the entries named "Parent Directory" and "filelist.txt" are dropped
  before classification, and the files reported are the remaining entries that classify
  as raw, in listing order.
\<close>

theorem raw_classification:
  "is_raw name =
     (str_in ''raw'' (lower name) \<or> str_in ''.idat'' (lower name) \<or> str_in ''.cel'' (lower name)
      \<or> str_in ''.fastq'' (lower name) \<or> str_in ''.fq'' (lower name)
      \<or> str_in ''.sra'' (lower name) \<or> str_in ''.bam'' (lower name)
      \<or> str_in ''.cram'' (lower name) \<or> str_in ''signal'' (lower name)
      \<or> str_in ''intensity'' (lower name) \<or> str_in ''reads'' (lower name)
      \<or> str_in ''sequencing'' (lower name))
   \<and> (lower a = lower b \<longrightarrow> is_raw a = is_raw b)
   \<and> set (file_names link_names) = set link_names - {''Parent Directory'', ''filelist.txt''}
   \<and> map filename (fst (check_raw_files size_of gse_id (Inr link_names)))
       = filter is_raw (file_names link_names)"
proof -
  have "lower a = lower b \<longrightarrow> is_raw a = is_raw b"
    by (simp add: is_raw_def Let_def)
  moreover have "set (file_names link_names)
                   = set link_names - {''Parent Directory'', ''filelist.txt''}"
    by (auto simp: file_names_def)
  moreover have "map filename (fst (check_raw_files size_of gse_id (Inr link_names)))
                   = filter is_raw (file_names link_names)"
    by (simp add: check_raw_files_def Let_def comp_def)
  ultimately show ?thesis using is_raw_keywords [of name] by blast
qed

theorem raw_classification_witness:
  "lower ''GSE1_RAW.tar'' = lower ''gse1_raw.TAR''
   \<and> is_raw ''GSE1_RAW.tar'' = is_raw ''gse1_raw.TAR''
   \<and> set (file_names [''Parent Directory'', ''GSE1_RAW.tar'', ''filelist.txt''])
       = {''GSE1_RAW.tar''}"
proof -
  have same: "lower ''GSE1_RAW.tar'' = lower ''gse1_raw.TAR''"
    by code_simp
  from raw_classification [of "''GSE1_RAW.tar''" "''GSE1_RAW.tar''" "''gse1_raw.TAR''"
      "[''Parent Directory'', ''GSE1_RAW.tar'', ''filelist.txt'']"]
  have "is_raw ''GSE1_RAW.tar'' = is_raw ''gse1_raw.TAR''"
    and "set (file_names [''Parent Directory'', ''GSE1_RAW.tar'', ''filelist.txt''])
           = set [''Parent Directory'', ''GSE1_RAW.tar'', ''filelist.txt'']
               - {''Parent Directory'', ''filelist.txt''}"
    using same by blast+
  then show ?thesis using same by auto
qed

subsection \<open>Dataset status\<close>

lemma count_all_iff: "length (filter P xs) = length xs \<longleftrightarrow> (\<forall>x\<in>set xs. P x)"
proof -
  have "length (filter P xs) + length (filter (\<lambda>x. \<not> P x) xs) = length xs"
    by (rule sum_length_filter_compl)
  then have "length (filter P xs) = length xs \<longleftrightarrow> filter (\<lambda>x. \<not> P x) xs = []"
    by auto
  then show ?thesis by (simp add: filter_empty_conv)
qed

lemma count_pos_iff: "0 < length (filter P xs) \<longleftrightarrow> (\<exists>x\<in>set xs. P x)"
  by (induction xs) auto

lemma overall_status_cases:
  assumes "rs \<noteq> []"
  shows "(overall_status rs = Completed \<longleftrightarrow> (\<forall>f\<in>set rs. fr_status f = FCompleted))
       \<and> (overall_status rs = Partial \<longleftrightarrow>
            (\<exists>f\<in>set rs. fr_status f = FCompleted) \<and> (\<exists>f\<in>set rs. fr_status f \<noteq> FCompleted))
       \<and> (overall_status rs = Failed \<longleftrightarrow> (\<forall>f\<in>set rs. fr_status f \<noteq> FCompleted))"
proof -
  let ?n = "length (filter (\<lambda>result. fr_status result = FCompleted) rs)"
  have all: "?n = length rs \<longleftrightarrow> (\<forall>f\<in>set rs. fr_status f = FCompleted)"
    by (rule count_all_iff)
  have some: "0 < ?n \<longleftrightarrow> (\<exists>f\<in>set rs. fr_status f = FCompleted)"
    by (rule count_pos_iff)
  from assms obtain f where "f \<in> set rs" by (cases rs) auto
  with all some show ?thesis
    unfolding overall_status_def Let_def by auto
qed

lemma sequential_length:
  "download_files_sequential cfg files w = (Inr rs, w') \<Longrightarrow> length rs = length files"
proof (induction files arbitrary: w rs w')
  case Nil
  then show ?case by simp
next
  case (Cons fi later)
  then show ?case
    by (auto simp: Let_def split: prod.splits sum.splits if_splits)
qed

lemma each_task_once_length: "each_task_once n completion \<Longrightarrow> length completion = n"
proof -
  assume "each_task_once n completion"
  then have "length (sort completion) = length [0..<n]" by (simp add: each_task_once_def)
  then show ?thesis by simp
qed

lemma found_nonempty_status:
  assumes res: "resolution env = Inr listing"
    and found: "fst (check_raw_files (probe env) gse_id listing) \<noteq> []"
    and once: "parallel cfg \<longrightarrow>
        each_task_once (length (fst (check_raw_files (probe env) gse_id listing))) (completion_order env)"
    and ret: "download_gse_dataset cfg env gse_id w = Inr r"
  shows "length (dr_files r) = length (fst (check_raw_files (probe env) gse_id listing))
       \<and> dr_status r = overall_status (dr_files r)"
proof -
  let ?found = "fst (check_raw_files (probe env) gse_id listing)"
  have md: "get_gse_metadata env gse_id
              = \<lparr>md_gse_id = gse_id, has_raw_data = True, raw_files = ?found, md_error = None\<rparr>"
    using res found by (simp add: get_gse_metadata_def check_raw_files_def Let_def split: prod.splits)
  show ?thesis
  proof (cases "parallel cfg \<and> length ?found > 1")
    case True
    with once have "length (completion_order env) = length ?found"
      by (simp add: each_task_once_length)
    with True ret md show ?thesis
      by (auto simp: download_gse_dataset_def truthy_def download_files_parallel_def Let_def)
  next
    case False
    obtain out w' where seq: "download_files_sequential cfg ?found w = (out, w')"
      by (cases "download_files_sequential cfg ?found w")
    with False ret md obtain rs where out: "out = Inr rs" and r: "dr_files r = rs" "dr_status r = overall_status rs"
      by (cases out) (auto simp: download_gse_dataset_def truthy_def Let_def split: if_splits)
    from seq out have "length rs = length ?found" by (simp add: sequential_length)
    with r show ?thesis by simp
  qed
qed

text \<open>
  When the directory listing returns, the status follows the files found. If no raw file
  was found, the result is \<open>no_raw_data\<close> with no files. If at least one was found, and the
  attempt returns a result (in parallel mode every task completing once), there is one
  file result per raw file and the status is \<open>completed\<close> exactly when all of them
  completed, \<open>partial\<close> exactly when some but not all did, and \<open>failed\<close> exactly when none did.
\<close>

lemma status_from_file_results:
  "(resolution env2 = Inr (Inr names2)
        \<and> fst (check_raw_files (probe env2) gse_id (Inr names2)) = [] \<longrightarrow>
      download_gse_dataset cfg env2 gse_id w
        = Inr \<lparr>dr_gse_id = gse_id, dr_status = No_raw_data,
               dr_error = Some ''No raw data files found'', dr_files = [], dr_metadata = None\<rparr>)
   \<and> (resolution env3 = Inr listing3
        \<and> fst (check_raw_files (probe env3) gse_id listing3) \<noteq> []
        \<and> (parallel cfg \<longrightarrow>
             each_task_once (length (fst (check_raw_files (probe env3) gse_id listing3)))
               (completion_order env3))
        \<and> download_gse_dataset cfg env3 gse_id w = Inr r \<longrightarrow>
      length (dr_files r) = length (fst (check_raw_files (probe env3) gse_id listing3))
      \<and> dr_error r = None
      \<and> (dr_status r = Completed \<longleftrightarrow> (\<forall>f\<in>set (dr_files r). fr_status f = FCompleted))
      \<and> (dr_status r = Partial \<longleftrightarrow>
           (\<exists>f\<in>set (dr_files r). fr_status f = FCompleted)
           \<and> (\<exists>f\<in>set (dr_files r). fr_status f \<noteq> FCompleted))
      \<and> (dr_status r = Failed \<longleftrightarrow> (\<forall>f\<in>set (dr_files r). fr_status f \<noteq> FCompleted)))"
proof -
  have b: "resolution env2 = Inr (Inr names2)
        \<and> fst (check_raw_files (probe env2) gse_id (Inr names2)) = [] \<longrightarrow>
      download_gse_dataset cfg env2 gse_id w
        = Inr \<lparr>dr_gse_id = gse_id, dr_status = No_raw_data,
               dr_error = Some ''No raw data files found'', dr_files = [], dr_metadata = None\<rparr>"
    by (simp add: download_gse_dataset_def get_gse_metadata_def truthy_def check_raw_files_def
          Let_def split: prod.splits)
  have c: "length (dr_files r) = length (fst (check_raw_files (probe env3) gse_id listing3))
      \<and> dr_error r = None
      \<and> (dr_status r = Completed \<longleftrightarrow> (\<forall>f\<in>set (dr_files r). fr_status f = FCompleted))
      \<and> (dr_status r = Partial \<longleftrightarrow>
           (\<exists>f\<in>set (dr_files r). fr_status f = FCompleted)
           \<and> (\<exists>f\<in>set (dr_files r). fr_status f \<noteq> FCompleted))
      \<and> (dr_status r = Failed \<longleftrightarrow> (\<forall>f\<in>set (dr_files r). fr_status f \<noteq> FCompleted))"
    if h: "resolution env3 = Inr listing3
        \<and> fst (check_raw_files (probe env3) gse_id listing3) \<noteq> []
        \<and> (parallel cfg \<longrightarrow>
             each_task_once (length (fst (check_raw_files (probe env3) gse_id listing3)))
               (completion_order env3))
        \<and> download_gse_dataset cfg env3 gse_id w = Inr r"
  proof -
    from h have st: "length (dr_files r) = length (fst (check_raw_files (probe env3) gse_id listing3))
         \<and> dr_status r = overall_status (dr_files r)"
      using found_nonempty_status [of env3 listing3 gse_id cfg w r] by blast
    with h have ne: "dr_files r \<noteq> []" by auto
    from h have err: "dr_error r = None"
      by (auto simp: download_gse_dataset_def get_gse_metadata_def truthy_def check_raw_files_def
            Let_def split: prod.splits if_splits sum.splits)
    from st overall_status_cases [OF ne] err show ?thesis by simp
  qed
  from b c show ?thesis by blast
qed

lemma two_file_listing:
  "check_raw_files (\<lambda>u. Some 10) ''GSE1''
     (Inr [''Parent Directory'', ''GSE1_RAW.tar'', ''GSE1_signal.txt''])
   = ([\<lparr>filename = ''GSE1_RAW.tar'',
        url = ''https://ftp.ncbi.nlm.nih.gov/geo/series/GSE0nnn/GSE1/suppl/GSE1_RAW.tar'',
        size_bytes = Some 10\<rparr>,
       \<lparr>filename = ''GSE1_signal.txt'',
        url = ''https://ftp.ncbi.nlm.nih.gov/geo/series/GSE0nnn/GSE1/suppl/GSE1_signal.txt'',
        size_bytes = Some 10\<rparr>], True)"
  by code_simp

lemma no_raw_listing:
  "check_raw_files (\<lambda>u. None) ''GSE1''
     (Inr [''Parent Directory'', ''filelist.txt'', ''notes.txt'']) = ([], False)"
  by code_simp

lemma status_from_file_results_example:
  "download_gse_dataset (default_config\<lparr>parallel := True\<rparr>) no_raw_env ''GSE1'' empty_world
     = Inr \<lparr>dr_gse_id = ''GSE1'', dr_status = No_raw_data,
            dr_error = Some ''No raw data files found'', dr_files = [], dr_metadata = None\<rparr>
   \<and> download_gse_dataset (default_config\<lparr>parallel := True\<rparr>) two_file_env ''GSE1'' empty_world
     = Inr partial_result
   \<and> length (dr_files partial_result) = 2
   \<and> dr_status partial_result = Partial"
proof -
  let ?cfg = "default_config\<lparr>parallel := True\<rparr>"
  let ?none = "[''Parent Directory'', ''filelist.txt'', ''notes.txt'']"
  let ?listing = "Inr [''Parent Directory'', ''GSE1_RAW.tar'', ''GSE1_signal.txt''] :: py_exception + string list"
  have h2: "resolution no_raw_env = Inr (Inr ?none)
            \<and> fst (check_raw_files (probe no_raw_env) ''GSE1'' (Inr ?none)) = []"
    by (simp add: no_raw_env_def no_raw_listing)
  have run: "download_gse_dataset ?cfg two_file_env ''GSE1'' empty_world = Inr partial_result"
    by (simp add: download_gse_dataset_def get_gse_metadata_def two_file_env_def two_file_listing
          truthy_def default_config_def download_files_parallel_def collect_future_def
          overall_status_def partial_result_def)
  have h3: "resolution two_file_env = Inr ?listing
            \<and> fst (check_raw_files (probe two_file_env) ''GSE1'' ?listing) \<noteq> []
            \<and> (parallel ?cfg \<longrightarrow>
                 each_task_once (length (fst (check_raw_files (probe two_file_env) ''GSE1'' ?listing)))
                   (completion_order two_file_env))
            \<and> download_gse_dataset ?cfg two_file_env ''GSE1'' empty_world = Inr partial_result"
    using run by (simp add: two_file_env_def two_file_listing each_task_once_def)
  from status_from_file_results [of no_raw_env ?none "''GSE1''" ?cfg empty_world
      two_file_env ?listing partial_result] h2 h3
  have "download_gse_dataset ?cfg no_raw_env ''GSE1'' empty_world
     = Inr \<lparr>dr_gse_id = ''GSE1'', dr_status = No_raw_data,
            dr_error = Some ''No raw data files found'', dr_files = [], dr_metadata = None\<rparr>"
    and "dr_status partial_result = Partial
           \<longleftrightarrow> (\<exists>f\<in>set (dr_files partial_result). fr_status f = FCompleted)
             \<and> (\<exists>f\<in>set (dr_files partial_result). fr_status f \<noteq> FCompleted)"
    by simp_all
  moreover have "length (dr_files partial_result) = 2" by (simp add: partial_result_def)
  moreover have "dr_status partial_result = Partial" by (simp add: partial_result_def)
  ultimately show ?thesis using run by simp
qed

text \<open>
  No failure of a request during resolution is reported: when nothing reaches the handler
  of \<^verbatim>\<open>get_gse_metadata\<close>, the \<open>error\<close> field stays \<^verbatim>\<open>None\<close>, and a directory listing that
  failed, whatever the exception, is turned into \<open>no_raw_data\<close>.
\<close>

lemma resolution_error_not_recorded:
  "resolution env = Inr listing \<Longrightarrow> md_error (get_gse_metadata env gse_id) = None"
  by (simp add: get_gse_metadata_def split: prod.splits)

lemma failed_listing_is_no_raw_data:
  "resolution env = Inr (Inl e) \<Longrightarrow>
     download_gse_dataset cfg env gse_id w
       = Inr \<lparr>dr_gse_id = gse_id, dr_status = No_raw_data,
              dr_error = Some ''No raw data files found'', dr_files = [], dr_metadata = None\<rparr>"
  by (simp add: download_gse_dataset_def get_gse_metadata_def truthy_def check_raw_files_def)


subsection \<open>Parallel dispatch\<close>






subsection \<open>Retry Wrapper: short-circuit and unknown sizes\<close>

lemmas transfer_defs = download_single_file_def attempt_body_def download_with_progress_def
  resume_decision_def total_size_def emit_def expected_gt_zero_def verify_file_integrity_def
  Let_def

lemma idat_path: "local_path_of default_config unknown_size_file = ''downloads/GSE1.idat''"
proof -
  have "safe_filename ''GSE1.idat'' = ''GSE1.idat''" by code_simp
  moreover have "path_join ''downloads'' ''GSE1.idat'' = ''downloads/GSE1.idat''" by code_simp
  ultimately show ?thesis
    by (simp add: local_path_of_def default_config_def unknown_size_file_def)
qed

lemma tar_path: "local_path_of (default_config\<lparr>verify_integrity := v\<rparr>) (sized_file n) = ''downloads/GSE1_RAW.tar''"
proof -
  have "safe_filename ''GSE1_RAW.tar'' = ''GSE1_RAW.tar''" by code_simp
  moreover have "path_join ''downloads'' ''GSE1_RAW.tar'' = ''downloads/GSE1_RAW.tar''" by code_simp
  ultimately show ?thesis
    by (simp add: local_path_of_def default_config_def sized_file_def)
qed

lemma tar_path_default: "local_path_of default_config (sized_file n) = ''downloads/GSE1_RAW.tar''"
  using tar_path [of "verify_integrity default_config" n] by simp

text \<open>
  Claim C3, amended. When the expected size is known and positive and the local file at the
  derived safe path has exactly that size, the Retry Wrapper returns \<open>completed\<close> with that
  size and leaves the world as it was: no transfer call, no request, no response consumed.
\<close>

theorem short_circuit_on_complete_file:
  assumes "size_bytes fi = Some e" and "0 < e" and "fs w (local_path_of cfg fi) = Some e"
  shows "download_single_file cfg fi w
           = (Inr \<lparr>fr_filename = filename fi, fr_local_path = Some (local_path_of cfg fi),
                   fr_status = FCompleted, fr_error = None, fr_size_bytes = Some e\<rparr>, w)"
  using assms by (simp add: transfer_defs)

theorem short_circuit_on_complete_file_witness:
  "size_bytes (sized_file 10) = Some 10 \<and> (0::nat) < 10
   \<and> fs (disk_and_net [(''downloads/GSE1_RAW.tar'', 10)] [full_body 10])
        (local_path_of default_config (sized_file 10)) = Some 10
   \<and> fst (download_single_file default_config (sized_file 10)
            (disk_and_net [(''downloads/GSE1_RAW.tar'', 10)] [full_body 10]))
       = Inr \<lparr>fr_filename = ''GSE1_RAW.tar'', fr_local_path = Some ''downloads/GSE1_RAW.tar'',
               fr_status = FCompleted, fr_error = None, fr_size_bytes = Some 10\<rparr>
   \<and> snd (download_single_file default_config (sized_file 10)
            (disk_and_net [(''downloads/GSE1_RAW.tar'', 10)] [full_body 10]))
       = disk_and_net [(''downloads/GSE1_RAW.tar'', 10)] [full_body 10]
   \<and> trace (disk_and_net [(''downloads/GSE1_RAW.tar'', 10)] [full_body 10]) = []"
proof -
  let ?w = "disk_and_net [(''downloads/GSE1_RAW.tar'', 10)] [full_body 10]"
  have h1: "size_bytes (sized_file 10) = Some 10" by (simp add: sized_file_def)
  have h2: "(0::nat) < 10" by simp
  have h3: "fs ?w (local_path_of default_config (sized_file 10)) = Some 10"
    by (simp add: tar_path_default disk_and_net_def)
  have name: "filename (sized_file 10) = ''GSE1_RAW.tar''" by (simp add: sized_file_def)
  have quiet: "trace ?w = []" by (simp add: disk_and_net_def)
  from short_circuit_on_complete_file [OF h1 h2 h3]
  have "download_single_file default_config (sized_file 10) ?w
          = (Inr \<lparr>fr_filename = ''GSE1_RAW.tar'', fr_local_path = Some ''downloads/GSE1_RAW.tar'',
                  fr_status = FCompleted, fr_error = None, fr_size_bytes = Some 10\<rparr>, ?w)"
    by (simp add: tar_path_default name)
  with h1 h2 h3 quiet show ?thesis by simp
qed

text \<open>
  Claim C3, as stated, fails for a known expected size of zero (the probe answered
  \<^verbatim>\<open>Content-Length: 0\<close>): the guard \<^verbatim>\<open>expected_size > 0\<close> skips the short-circuit, and an
  existing empty file is downloaded again.
\<close>

theorem empty_file_not_short_circuited_counterexample:
  "size_bytes (sized_file 0) = Some 0
   \<and> fs (disk_and_net [(''downloads/GSE1_RAW.tar'', 0)] [full_body 0])
        (local_path_of default_config (sized_file 0)) = Some 0
   \<and> trace (snd (download_single_file default_config (sized_file 0)
                    (disk_and_net [(''downloads/GSE1_RAW.tar'', 0)] [full_body 0])))
       = [Transfer_call ''https://host/GSE1_RAW.tar'' ''downloads/GSE1_RAW.tar'' (Some 0),
          Request ''https://host/GSE1_RAW.tar'' None,
          Opened ''downloads/GSE1_RAW.tar'' Write_truncate]"
  using tar_path_default [of 0]
  by (simp add: transfer_defs retry_loop.simps disk_and_net_def full_body_def
        default_config_def sized_file_def)

lemma attempt_unknown_size_fails:
  assumes "size_bytes fi = None"
  shows "\<exists>e w'. attempt_body cfg fi lp w = (Inl e, w')"
  using assms
  by (cases "download_with_progress cfg (url fi) lp None w")
     (auto simp: attempt_body_def expected_gt_zero_def split: sum.splits)

lemma retry_unknown_size_fails:
  "size_bytes fi = None \<Longrightarrow> fr_status (fst (retry_loop cfg fi lp attempt w)) = FFailed"
proof (induction cfg fi lp attempt w rule: retry_loop.induct)
  case (1 cfg fi lp attempt w)
  obtain e w' where fails: "attempt_body cfg fi lp w = (Inl e, w')"
    using attempt_unknown_size_fails [OF "1.prems"] by blast
  show ?case
  proof (cases "attempt < max_retries cfg")
    case True
    from "1.IH" fails True "1.prems"
    have "fr_status (fst (retry_loop cfg fi lp (Suc attempt) (emit (Sleep (retry_delay cfg)) w'))) = FFailed"
      by simp
    with fails True show ?thesis
      by (simp add: retry_loop.simps [of cfg fi lp attempt w])
  next
    case False
    with fails show ?thesis
      by (simp add: retry_loop.simps [of cfg fi lp attempt w])
  qed
qed

lemma unknown_size_never_completed:
  assumes "size_bytes fi = None" and "fst (download_single_file cfg fi w) = Inr r"
  shows "fr_status r = FFailed"
proof -
  from assms have "r = fst (retry_loop cfg fi (local_path_of cfg fi) 0 w)"
    by (auto simp: download_single_file_def expected_gt_zero_def Let_def
          split: if_splits prod.splits)
  with retry_unknown_size_fails [OF assms(1)] show ?thesis by simp
qed

text \<open>
  Claim C6. The file below has no known size (the probe failed) and no local copy; the
  server answers the first request with the whole body of 10 bytes. The transfer writes
  all 10 bytes, then \<^verbatim>\<open>expected_size > 0\<close> raises on \<^verbatim>\<open>None\<close>, the attempt counts as failed,
  every retry fails on \<^verbatim>\<open>existing_size < expected_size\<close>, and the result is \<open>failed\<close>.
\<close>

theorem unknown_size_download_fails:
  "size_bytes unknown_size_file = None
   \<and> fst (download_single_file default_config unknown_size_file (disk_and_net [] [full_body 10]))
       = Inr \<lparr>fr_filename = ''GSE1.idat'', fr_local_path = Some ''downloads/GSE1.idat'',
               fr_status = FFailed, fr_error = Some int_lt_none_msg, fr_size_bytes = Some 0\<rparr>
   \<and> fs (snd (download_single_file default_config unknown_size_file
                  (disk_and_net [] [full_body 10]))) ''downloads/GSE1.idat'' = Some 10
   \<and> fst (download_single_file default_config unknown_size_file
            (disk_and_net [(''downloads/GSE1.idat'', 10)] [full_body 10]))
       = Inl (TypeError none_gt_msg)"
  using idat_path
  by (simp add: transfer_defs retry_loop.simps disk_and_net_def full_body_def
        default_config_def unknown_size_file_def)

subsection \<open>Retry Wrapper and File Transfer Unit: attempts, waits and resumption\<close>








text \<open>
  Claim C2. The file below has no known size and no local copy, \<open>max_retries\<close> is 3, and the
  server answers the first request with the whole body of 10 bytes. The first call of the
  transfer function returns without an exception and leaves the 10 bytes on disk: the
  transfer succeeds on attempt 1. The claim asks for exactly one attempt and the status
  \<open>completed\<close> with size 10. The loop goes on instead: it makes four calls of the transfer
  function with three waits between them, and the result is \<open>failed\<close> with size 0.
\<close>

theorem successful_transfer_is_retried:
  "size_bytes unknown_size_file = None
   \<and> max_retries default_config = 3
   \<and> fst (download_with_progress default_config ''https://host/GSE1.idat'' ''downloads/GSE1.idat'' None
            (disk_and_net [] [full_body 10])) = Inr ()
   \<and> fs (snd (download_with_progress default_config ''https://host/GSE1.idat'' ''downloads/GSE1.idat'' None
                 (disk_and_net [] [full_body 10]))) ''downloads/GSE1.idat'' = Some 10
   \<and> filter is_attempt_or_sleep
        (new_events (disk_and_net [] [full_body 10])
           (snd (retry_loop default_config unknown_size_file ''downloads/GSE1.idat'' 0
                   (disk_and_net [] [full_body 10]))))
       = [Transfer_call ''https://host/GSE1.idat'' ''downloads/GSE1.idat'' None, Sleep 2,
          Transfer_call ''https://host/GSE1.idat'' ''downloads/GSE1.idat'' None, Sleep 2,
          Transfer_call ''https://host/GSE1.idat'' ''downloads/GSE1.idat'' None, Sleep 2,
          Transfer_call ''https://host/GSE1.idat'' ''downloads/GSE1.idat'' None]
   \<and> fst (retry_loop default_config unknown_size_file ''downloads/GSE1.idat'' 0
            (disk_and_net [] [full_body 10]))
       = \<lparr>fr_filename = ''GSE1.idat'', fr_local_path = Some ''downloads/GSE1.idat'',
          fr_status = FFailed, fr_error = Some int_lt_none_msg, fr_size_bytes = Some 0\<rparr>
   \<and> fs (snd (retry_loop default_config unknown_size_file ''downloads/GSE1.idat'' 0
                 (disk_and_net [] [full_body 10]))) ''downloads/GSE1.idat'' = Some 10"
  by (simp add: transfer_defs retry_loop.simps disk_and_net_def full_body_def
        default_config_def unknown_size_file_def new_events_def)





subsection \<open>Run Orchestrator: status updates and saves\<close>

lemma save_keeps_status: "download_status (save_download_status d) = download_status d"
  by (simp add: save_download_status_def Let_def split: list.splits write_outcome.splits)

lemma save_trace:
  "filter is_save (run_trace (save_download_status d))
     = filter is_save (run_trace d) @ [Save_called (download_status d)]"
  by (simp add: save_download_status_def Let_def split: list.splits write_outcome.splits)

lemma status_after_0: "status_after f m ids 0 = m"
  by (simp add: status_after_def)

lemma status_after_Suc:
  "status_after f m ids (Suc k) = (status_after f m ids k)(ids ! k \<mapsto> f (Suc k) (ids ! k))"
  by (simp add: status_after_def)

lemma status_after_prefix:
  assumes "k \<le> length pre"
  shows "status_after f m (pre @ rest) k = status_after f m pre k"
proof -
  have eq: "map (\<lambda>j. ((pre @ rest) ! j, f (Suc j) ((pre @ rest) ! j))) [0..<k]
          = map (\<lambda>j. (pre ! j, f (Suc j) (pre ! j))) [0..<k]"
    using assms by (intro map_cong) (auto simp: nth_append)
  show ?thesis unfolding status_after_def eq by (rule refl)
qed

lemma dataset_loop_run:
  "dataset_loop (\<lambda>i g. Inr (f i g)) (Suc (length pre)) rest results d = (out, d') \<Longrightarrow>
   download_status d = Object (status_after f m (pre @ rest) (length pre)) \<Longrightarrow>
     out = Inr (results @ map (\<lambda>j. f (Suc j) ((pre @ rest) ! j)) [length pre..<length (pre @ rest)])
     \<and> download_status d' = Object (status_after f m (pre @ rest) (length (pre @ rest)))
     \<and> filter is_save (run_trace d')
         = filter is_save (run_trace d)
           @ map (\<lambda>k. Save_called (Object (status_after f m (pre @ rest) k)))
               (filter (\<lambda>k. k mod 5 = 0) [Suc (length pre)..<Suc (length (pre @ rest))])"
proof (induction rest arbitrary: pre results d)
  case Nil
  then show ?case by simp
next
  case (Cons g rest)
  let ?i = "Suc (length pre)"
  let ?st = "Object (status_after f m (pre @ g # rest) ?i)"
  let ?d1 = "d\<lparr>download_status := ?st\<rparr>"
  let ?d2 = "if ?i mod 5 = 0 then save_download_status ?d1 else ?d1"
  have upd: "set_item (download_status d) g (f ?i g) = Inr ?st"
    using Cons.prems(2) by (simp add: set_item_def status_after_Suc)
  have st2: "download_status ?d2
               = Object (status_after f m ((pre @ [g]) @ rest) (length (pre @ [g])))"
    by (simp add: save_keeps_status)
  have tr2: "filter is_save (run_trace ?d2)
               = filter is_save (run_trace d)
                 @ (if ?i mod 5 = 0 then [Save_called ?st] else [])"
    by (simp add: save_trace)
  from Cons.prems(1) upd
  have "dataset_loop (\<lambda>i g. Inr (f i g)) (Suc (length (pre @ [g]))) rest (results @ [f ?i g]) ?d2
          = (out, d')"
    by (simp add: Let_def)
  from Cons.IH [OF this st2]
  have out: "out = Inr ((results @ [f ?i g])
                   @ map (\<lambda>j. f (Suc j) ((pre @ g # rest) ! j)) [?i..<length (pre @ g # rest)])"
    and st: "download_status d'
               = Object (status_after f m (pre @ g # rest) (length (pre @ g # rest)))"
    and tr: "filter is_save (run_trace d')
         = filter is_save (run_trace ?d2)
           @ map (\<lambda>k. Save_called (Object (status_after f m (pre @ g # rest) k)))
               (filter (\<lambda>k. k mod 5 = 0) [Suc ?i..<Suc (length (pre @ g # rest))])"
    by simp_all
  have upt1: "[length pre..<length (pre @ g # rest)] = length pre # [?i..<length (pre @ g # rest)]"
    by (rule upt_conv_Cons) simp
  have upt2: "[?i..<Suc (length (pre @ g # rest))] = ?i # [Suc ?i..<Suc (length (pre @ g # rest))]"
    by (rule upt_conv_Cons) simp
  have "out = Inr (results @ map (\<lambda>j. f (Suc j) ((pre @ g # rest) ! j))
                               [length pre..<length (pre @ g # rest)])"
    unfolding upt1 using out by simp
  moreover have "filter is_save (run_trace d')
         = filter is_save (run_trace d)
           @ map (\<lambda>k. Save_called (Object (status_after f m (pre @ g # rest) k)))
               (filter (\<lambda>k. k mod 5 = 0) [?i..<Suc (length (pre @ g # rest))])"
    unfolding upt2 using tr tr2 by simp
  ultimately show ?case using st by simp
qed

lemma dataset_loop_abort:
  "download_status d = Object m \<Longrightarrow> dataset_loop dl i ids results d = (Inl e, d') \<Longrightarrow>
     \<exists>j g. dl j g = Inl e"
proof (induction ids arbitrary: i results d m)
  case Nil
  then show ?case by simp
next
  case (Cons g ids)
  show ?case
  proof (cases "dl i g")
    case (Inl e')
    with Cons.prems have "e' = e" by simp
    with Inl show ?thesis by blast
  next
    case (Inr result)
    let ?d1 = "d\<lparr>download_status := Object (m(g \<mapsto> result))\<rparr>"
    let ?d2 = "if i mod 5 = 0 then save_download_status ?d1 else ?d1"
    have "download_status ?d2 = Object (m(g \<mapsto> result))"
      by (simp add: save_keeps_status)
    moreover from Cons.prems Inr
    have "dataset_loop dl (Suc i) ids (results @ [result]) ?d2 = (Inl e, d')"
      by (simp add: set_item_def Let_def)
    ultimately show ?thesis by (rule Cons.IH)
  qed
qed

lemma load_status:
  "starts_as_dict on_disk \<Longrightarrow>
     download_status (load_download_status (new_downloader on_disk script))
       = Object (loaded_status on_disk)"
  by (cases on_disk rule: starts_as_dict.cases)
     (simp_all add: load_download_status_def new_downloader_def)

lemma load_trace:
  "filter is_save (run_trace (load_download_status (new_downloader on_disk script))) = []"
  by (simp add: load_download_status_def new_downloader_def split: status_file.splits)

lemma save_without_failures:
  "write_outcomes d = [] \<Longrightarrow>
     write_outcomes (save_download_status d) = []
     \<and> status_on_disk (save_download_status d) = Stored (download_status d)"
  by (simp add: save_download_status_def Let_def)

lemma dataset_loop_without_failures:
  "write_outcomes d = [] \<Longrightarrow> dataset_loop dl i ids results d = (out, d') \<Longrightarrow>
     write_outcomes d' = []"
proof (induction ids arbitrary: i results d)
  case Nil
  then show ?case by simp
next
  case (Cons g ids)
  show ?case
  proof (cases "dl i g")
    case (Inl e)
    with Cons.prems show ?thesis by simp
  next
    case (Inr result)
    show ?thesis
    proof (cases "set_item (download_status d) g result")
      case (Inl e)
      with Cons.prems \<open>dl i g = Inr result\<close> show ?thesis by simp
    next
      case upd: (Inr updated)
      let ?d1 = "d\<lparr>download_status := updated\<rparr>"
      let ?d2 = "if i mod 5 = 0 then save_download_status ?d1 else ?d1"
      from Cons.prems(1) have "write_outcomes ?d2 = []"
        by (simp add: save_without_failures)
      moreover from Cons.prems(2) Inr upd
      have "dataset_loop dl (Suc i) ids (results @ [result]) ?d2 = (out, d')"
        by (simp add: Let_def)
      ultimately show ?thesis by (rule Cons.IH)
    qed
  qed
qed

text \<open>
  What holds of the claim about the Orchestrator, for a run on a fresh downloader that
  starts with a dict and whose dataset attempts all return (\<open>f i g\<close> is the result of the
  \<open>i\<close>-th attempt), with any failures of the coming writes: the run returns its summary; the
  in-memory status after the first \<open>k\<close> datasets is the status read at the start updated
  with the first \<open>k\<close> results; the status is saved after every 5th dataset and once more at
  the end, each time in full; and when no write fails, the file ends holding the final
  status. A missing status file leaves the status empty without a warning; an unreadable
  one is discarded with a warning. A run that ends with an exception got it from a dataset
  attempt, not from reading or writing the status file.
\<close>

lemma status_updated_and_saved:
  "(starts_as_dict on_disk \<and> gse_ids \<noteq> [] \<longrightarrow>
      (\<exists>s. fst (download_multiple_datasets (\<lambda>i g. Inr (f i g)) gse_ids
                   (new_downloader on_disk script)) = Inr (Summary s))
      \<and> download_status (snd (download_multiple_datasets (\<lambda>i g. Inr (f i g)) gse_ids
                                 (new_downloader on_disk script)))
          = Object (status_after f (loaded_status on_disk) gse_ids (length gse_ids))
      \<and> filter is_save (run_trace (snd (download_multiple_datasets (\<lambda>i g. Inr (f i g)) gse_ids
                                           (new_downloader on_disk script))))
          = expected_saves f (loaded_status on_disk) gse_ids
      \<and> (script = [] \<longrightarrow>
            status_on_disk (snd (download_multiple_datasets (\<lambda>i g. Inr (f i g)) gse_ids
                                   (new_downloader on_disk script)))
              = Stored (Object (status_after f (loaded_status on_disk) gse_ids (length gse_ids)))))
   \<and> (starts_as_dict on_disk \<and> k \<le> length gse_ids \<longrightarrow>
        download_status (snd (dataset_loop (\<lambda>i g. Inr (f i g)) 1 (take k gse_ids) []
                                (load_download_status (new_downloader on_disk script))))
          = Object (status_after f (loaded_status on_disk) gse_ids k))
   \<and> load_download_status (new_downloader Missing script) = new_downloader Missing script
   \<and> load_download_status (new_downloader (Unreadable e) script)
       = (new_downloader (Unreadable e) script)
           \<lparr>run_trace := [Warning (''Failed to load download status: '' @ str_exn e)]\<rparr>
   \<and> (starts_as_dict on_disk
        \<and> fst (download_multiple_datasets dl ids (new_downloader on_disk script)) = Inl e'
        \<longrightarrow> (\<exists>j g. dl j g = Inl e'))"
proof -
  let ?dl = "\<lambda>i g. Inr (f i g) :: py_exception + dataset_result"
  let ?m = "loaded_status on_disk"
  let ?d0 = "load_download_status (new_downloader on_disk script)"
  have start: "download_status ?d0 = Object (status_after f ?m ids' 0)"
    if "starts_as_dict on_disk" for ids'
    using that by (simp add: load_status status_after_0)
  have run: "(\<exists>s. fst (download_multiple_datasets ?dl gse_ids (new_downloader on_disk script))
                     = Inr (Summary s))
      \<and> download_status (snd (download_multiple_datasets ?dl gse_ids
                                 (new_downloader on_disk script)))
          = Object (status_after f ?m gse_ids (length gse_ids))
      \<and> filter is_save (run_trace (snd (download_multiple_datasets ?dl gse_ids
                                           (new_downloader on_disk script))))
          = expected_saves f ?m gse_ids
      \<and> (script = [] \<longrightarrow>
            status_on_disk (snd (download_multiple_datasets ?dl gse_ids
                                   (new_downloader on_disk script)))
              = Stored (Object (status_after f ?m gse_ids (length gse_ids))))"
    if dict: "starts_as_dict on_disk" and nonempty: "gse_ids \<noteq> []"
  proof -
    obtain out d1 where loop: "dataset_loop ?dl 1 gse_ids [] ?d0 = (out, d1)"
      by (cases "dataset_loop ?dl 1 gse_ids [] ?d0")
    then have loop': "dataset_loop ?dl (Suc (length ([] :: string list))) gse_ids [] ?d0 = (out, d1)"
      by simp
    from dataset_loop_run [OF loop', of ?m] start [OF dict, of gse_ids]
    have out: "out = Inr (map (\<lambda>j. f (Suc j) (gse_ids ! j)) [0..<length gse_ids])"
      and st: "download_status d1 = Object (status_after f ?m gse_ids (length gse_ids))"
      and tr: "filter is_save (run_trace d1)
                 = map (\<lambda>k. Save_called (Object (status_after f ?m gse_ids k)))
                     (filter (\<lambda>k. k mod 5 = 0) [1..<Suc (length gse_ids)])"
      by (simp_all add: load_trace)
    from nonempty loop out
    have res: "snd (download_multiple_datasets ?dl gse_ids (new_downloader on_disk script))
                 = save_download_status d1"
      and ret: "\<exists>s. fst (download_multiple_datasets ?dl gse_ids (new_downloader on_disk script))
                 = Inr (Summary s)"
      by (simp_all add: download_multiple_datasets_def)
    have disk: "status_on_disk (save_download_status d1)
                  = Stored (Object (status_after f ?m gse_ids (length gse_ids)))" if "script = []"
    proof -
      from that have "write_outcomes ?d0 = []"
        by (simp add: load_download_status_def new_downloader_def split: status_file.splits)
      from dataset_loop_without_failures [OF this loop] have "write_outcomes d1 = []" .
      from save_without_failures [OF this] st show ?thesis by simp
    qed
    have status: "download_status (snd (download_multiple_datasets ?dl gse_ids
                                 (new_downloader on_disk script)))
          = Object (status_after f ?m gse_ids (length gse_ids))"
      unfolding res using st by (simp add: save_keeps_status)
    have saves: "filter is_save (run_trace (snd (download_multiple_datasets ?dl gse_ids
                                           (new_downloader on_disk script))))
          = expected_saves f ?m gse_ids"
      unfolding res using st tr by (simp add: save_trace expected_saves_def)
    have stored: "script = [] \<longrightarrow>
            status_on_disk (snd (download_multiple_datasets ?dl gse_ids
                                   (new_downloader on_disk script)))
              = Stored (Object (status_after f ?m gse_ids (length gse_ids)))"
      unfolding res using disk by blast
    from ret status saves stored show ?thesis by blast
  qed
  have prefix: "download_status (snd (dataset_loop ?dl 1 (take k gse_ids) [] ?d0))
          = Object (status_after f ?m gse_ids k)"
    if dict: "starts_as_dict on_disk" and le: "k \<le> length gse_ids"
  proof -
    obtain out d1 where loop: "dataset_loop ?dl 1 (take k gse_ids) [] ?d0 = (out, d1)"
      by (cases "dataset_loop ?dl 1 (take k gse_ids) [] ?d0")
    then have loop': "dataset_loop ?dl (Suc (length ([] :: string list))) (take k gse_ids) [] ?d0
                        = (out, d1)"
      by simp
    from dataset_loop_run [OF loop', of ?m] start [OF dict, of "take k gse_ids"] le
    have "download_status d1 = Object (status_after f ?m (take k gse_ids) k)"
      by simp
    moreover from le
    have "status_after f ?m (take k gse_ids @ drop k gse_ids) k
            = status_after f ?m (take k gse_ids) k"
      by (intro status_after_prefix) simp
    ultimately show ?thesis using loop by simp
  qed
  have missing: "load_download_status (new_downloader Missing script) = new_downloader Missing script"
    by (simp add: load_download_status_def new_downloader_def)
  have unreadable: "load_download_status (new_downloader (Unreadable e) script)
       = (new_downloader (Unreadable e) script)
           \<lparr>run_trace := [Warning (''Failed to load download status: '' @ str_exn e)]\<rparr>"
    by (simp add: load_download_status_def new_downloader_def)
  have abort: "\<exists>j g. dl j g = Inl e'"
    if dict: "starts_as_dict on_disk"
      and "fst (download_multiple_datasets dl ids (new_downloader on_disk script)) = Inl e'"
  proof -
    from that(2) obtain d1 where
      "dataset_loop dl 1 ids [] (load_download_status (new_downloader on_disk script)) = (Inl e', d1)"
      by (auto simp: download_multiple_datasets_def split: if_splits prod.splits sum.splits)
    with load_status [OF dict, of script] show ?thesis by (rule dataset_loop_abort)
  qed
  from run prefix missing unreadable abort show ?thesis by blast
qed

lemma status_updated_and_saved_example:
  "six_ids \<noteq> []
   \<and> filter is_save (run_trace (snd (download_multiple_datasets (\<lambda>i g. Inr (attempt_result i g)) six_ids
        (new_downloader (Unreadable (ValueError ''Expecting value'')) [Open_fails (OSError ''Permission denied'')]))))
       = [Save_called (Object (status_after attempt_result Map.empty six_ids 5)),
          Save_called (Object (status_after attempt_result Map.empty six_ids 6))]
   \<and> (\<exists>s. fst (download_multiple_datasets (\<lambda>i g. Inr (attempt_result i g)) six_ids
        (new_downloader (Unreadable (ValueError ''Expecting value'')) [Open_fails (OSError ''Permission denied'')])) = Inr (Summary s))
   \<and> status_on_disk (snd (download_multiple_datasets (\<lambda>i g. Inr (attempt_result i g)) six_ids (new_downloader Missing [])))
       = Stored (Object (status_after attempt_result Map.empty six_ids 6))
   \<and> status_after attempt_result Map.empty six_ids 6 ''GSE2'' = Some (attempt_result 2 ''GSE2'')
   \<and> (3::nat) \<le> length six_ids
   \<and> download_status (snd (dataset_loop (\<lambda>i g. Inr (attempt_result i g)) 1 (take 3 six_ids) []
                              (load_download_status (new_downloader Missing []))))
       = Object (status_after attempt_result Map.empty six_ids 3)
   \<and> status_after attempt_result Map.empty six_ids 3 ''GSE3'' = Some (attempt_result 3 ''GSE3'')
   \<and> status_after attempt_result Map.empty six_ids 3 ''GSE4'' = None"
proof -
  note bad = status_updated_and_saved
    [where gse_ids = six_ids and f = attempt_result
       and on_disk = "Unreadable (ValueError ''Expecting value'')"
       and script = "[Open_fails (OSError ''Permission denied'')]" and k = 3
       and e = "ValueError ''Expecting value''"
       and dl = "\<lambda>i g. Inl (OSError ''disk full'')" and ids = "[]"
       and e' = "OSError ''disk full''"]
  note good = status_updated_and_saved
    [where gse_ids = six_ids and f = attempt_result and on_disk = Missing
       and script = "[]" and k = 3 and e = "ValueError ''Expecting value''"
       and dl = "\<lambda>i g. Inl (OSError ''disk full'')" and ids = "[]"
       and e' = "OSError ''disk full''"]
  have ids: "six_ids \<noteq> []" "(3::nat) \<le> length six_ids" "length six_ids = 6"
    by (simp_all add: six_ids_def)
  have dict: "starts_as_dict Missing" "starts_as_dict (Unreadable (ValueError ''Expecting value''))"
    by simp_all
  have upt: "filter (\<lambda>k. k mod 5 = 0) [1..<Suc 6] = [5::nat]"
    by (simp add: upt_rec)
  from bad ids dict
  have "filter is_save (run_trace (snd (download_multiple_datasets (\<lambda>i g. Inr (attempt_result i g)) six_ids
        (new_downloader (Unreadable (ValueError ''Expecting value'')) [Open_fails (OSError ''Permission denied'')]))))
       = expected_saves attempt_result Map.empty six_ids"
    and ret: "\<exists>s. fst (download_multiple_datasets (\<lambda>i g. Inr (attempt_result i g)) six_ids
        (new_downloader (Unreadable (ValueError ''Expecting value'')) [Open_fails (OSError ''Permission denied'')])) = Inr (Summary s)"
    unfolding loaded_status.simps by blast+
  then have saves: "filter is_save (run_trace (snd (download_multiple_datasets (\<lambda>i g. Inr (attempt_result i g)) six_ids
        (new_downloader (Unreadable (ValueError ''Expecting value'')) [Open_fails (OSError ''Permission denied'')]))))
       = [Save_called (Object (status_after attempt_result Map.empty six_ids 5)),
          Save_called (Object (status_after attempt_result Map.empty six_ids 6))]"
    unfolding expected_saves_def ids(3) upt by simp
  from good ids(1,2) dict(1)
  have "status_on_disk (snd (download_multiple_datasets (\<lambda>i g. Inr (attempt_result i g)) six_ids (new_downloader Missing [])))
       = Stored (Object (status_after attempt_result Map.empty six_ids (length six_ids)))"
    and prefix: "download_status (snd (dataset_loop (\<lambda>i g. Inr (attempt_result i g)) 1 (take 3 six_ids) []
                              (load_download_status (new_downloader Missing []))))
       = Object (status_after attempt_result Map.empty six_ids 3)"
    unfolding loaded_status.simps by blast+
  then have stored: "status_on_disk (snd (download_multiple_datasets (\<lambda>i g. Inr (attempt_result i g)) six_ids (new_downloader Missing [])))
       = Stored (Object (status_after attempt_result Map.empty six_ids 6))"
    unfolding ids(3) by simp
  have two: "status_after attempt_result Map.empty six_ids 6 ''GSE2''
               = Some (attempt_result 2 ''GSE2'')"
    by (simp add: status_after_def six_ids_def upt_rec numeral_2_eq_2)
  have three: "status_after attempt_result Map.empty six_ids 3 ''GSE3''
               = Some (attempt_result 3 ''GSE3'')"
    "status_after attempt_result Map.empty six_ids 3 ''GSE4'' = None"
    by (simp_all add: status_after_def six_ids_def upt_rec numeral_3_eq_3)
  from ids saves ret stored two prefix three show ?thesis by simp
qed

text \<open>
  Claim C8. The status file holds a JSON array (or a JSON string). The claim asks for such
  a file to be discarded with a warning and for the run to go on. Loading accepts it
  without a warning and keeps it as the status; the first dataset attempt returns its
  result; storing the result under the identifier raises \<^verbatim>\<open>TypeError\<close>, which ends the run
  without a summary and without any save, and the process exits with 1.
\<close>

theorem array_status_file_aborts_run:
  "\<not> isl (one_partial 1 ''GSE1'')
   \<and> load_download_status (new_downloader (Stored Array) [])
       = (new_downloader (Stored Array) [])\<lparr>download_status := Array\<rparr>
   \<and> download_multiple_datasets one_partial [''GSE1''] (new_downloader (Stored Array) [])
       = (Inl (TypeError ''list indices must be integers or slices, not str''),
          \<lparr>download_status = Array, status_on_disk = Stored Array, write_outcomes = [],
           run_trace = []\<rparr>)
   \<and> main_exit_code (fst (download_multiple_datasets one_partial [''GSE1'']
                             (new_downloader (Stored Array) []))) = 1
   \<and> download_multiple_datasets one_partial [''GSE1''] (new_downloader (Stored Text) [])
       = (Inl (TypeError (CHR 0x27 # ''str' object does not support item assignment'')),
          \<lparr>download_status = Text, status_on_disk = Stored Text, write_outcomes = [],
           run_trace = []\<rparr>)"
  by (simp add: download_multiple_datasets_def one_partial_def load_download_status_def
        new_downloader_def set_item_def main_exit_code_def)

end
